theory Spec2Isabelle
  imports Main "HOL-Library.List_Lexorder" "HOL-Library.Char_ord"
begin

section \<open>The content tracker of db_manager.py\<close>

text \<open>
  The module keeps one SQLite table, \<open>ideas_log\<close>, and three operations on it:
  \<open>log_idea\<close>, \<open>get_current_day\<close> and \<open>check_for_duplication\<close>. The table is
  modelled as the list of its rows in rowid order together with the AUTOINCREMENT
  counter; the wall clock and the failures of the storage layer are an explicit
  environment; a raised exception is the left summand of the result.

  Strings are lists of characters, a character being one code point below 256.
  Text written by \<open>print\<close> is not modelled.
\<close>

subsection \<open>Rows, the store and the environment\<close>

record row =
  idea_id :: nat
  title :: string
  niche :: string
  continuation_day :: int
  created_at :: string
  generation_date :: string

record store =
  rows :: "row list"
  last_id :: nat

text \<open>The statements of one operation at which the storage layer can raise \<open>sqlite3.Error\<close>.\<close>

datatype stmt = Connect | Select | Delete | Insert | Commit

record env =
  today :: string
  now :: string
  fault :: "stmt \<Rightarrow> bool"

datatype error = ValueError string | StorageError

definition empty_store :: store where
  "empty_store = \<lparr>rows = [], last_id = 0\<rparr>"

definition no_fault :: "stmt \<Rightarrow> bool" where
  "no_fault x = False"

subsection \<open>Python and SQLite string functions\<close>

text \<open>\<open>str.strip()\<close> removes the leading and trailing white space; these are the
  code points below 256 for which \<open>str.isspace\<close> holds.\<close>

definition py_isspace :: "char \<Rightarrow> bool" where
  "py_isspace c = ((of_char c :: nat) \<in> {9, 10, 11, 12, 13, 28, 29, 30, 31, 32, 133, 160})"

definition strip :: "string \<Rightarrow> string" where
  "strip s = rev (dropWhile py_isspace (rev (dropWhile py_isspace s)))"

text \<open>SQLite's built-in \<open>LOWER\<close> folds the ASCII letters A to Z only.\<close>

definition lower_char :: "char \<Rightarrow> char" where
  "lower_char c =
     (if 65 \<le> (of_char c :: nat) \<and> (of_char c :: nat) \<le> 90
      then char_of ((of_char c :: nat) + 32) else c)"

definition LOWER :: "string \<Rightarrow> string" where
  "LOWER s = map lower_char s"

text \<open>\<open>SELECT MAX(...)\<close> is NULL on no rows.\<close>

fun sql_max :: "int list \<Rightarrow> int option" where
  "sql_max [] = None"
| "sql_max (x # xs) = Some (fold max xs x)"

subsection \<open>The schema\<close>

definition allowed_niches :: "string list" where
  "allowed_niches = [''MMO'', ''AI/Tech'', ''Faceless'']"

text \<open>The two CHECK constraints of \<open>CREATE TABLE ideas_log\<close>.\<close>

definition check_constraints :: "row \<Rightarrow> bool" where
  "check_constraints r = (continuation_day r > 0 \<and> niche r \<in> set allowed_niches)"

text \<open>AUTOINCREMENT: one more than the largest rowid ever used.\<close>

definition next_id :: "store \<Rightarrow> nat" where
  "next_id s = Suc (fold max (map idea_id (rows s)) (last_id s))"

subsection \<open>The operations\<close>

definition same_day :: "string \<Rightarrow> string \<Rightarrow> row \<Rightarrow> bool" where
  "same_day n d r = (niche r = n \<and> generation_date r = d)"

text \<open>The row of the INSERT statement of \<open>log_idea\<close>.\<close>

definition new_row :: "env \<Rightarrow> string \<Rightarrow> string \<Rightarrow> int \<Rightarrow> store \<Rightarrow> row" where
  "new_row e title' niche' continuation_day' s =
     \<lparr>idea_id = next_id s, title = strip title', niche = strip niche',
      continuation_day = continuation_day', created_at = now e, generation_date = today e\<rparr>"

text \<open>
  \<open>log_idea\<close>: the three argument checks raise \<open>ValueError\<close> before the connection is
  opened. Inside \<open>with sqlite3.connect(...)\<close> every \<open>sqlite3.Error\<close> (a failing statement,
  or the CHECK constraints refusing the INSERT) leaves the block by an exception, which
  rolls the transaction back, and is turned into the result \<open>False\<close>. So is the
  \<open>OverflowError\<close> that binding the INSERT raises for a day that does not fit SQLite's
  64-bit INTEGER.
\<close>

definition log_idea :: "env \<Rightarrow> string \<Rightarrow> string \<Rightarrow> int \<Rightarrow> store \<Rightarrow> (error + bool) \<times> store" where
  "log_idea e title' niche' continuation_day' s =
     (if title' = [] \<or> strip title' = [] then (Inl (ValueError ''Title cannot be empty''), s)
      else if niche' = [] \<or> strip niche' = [] then (Inl (ValueError ''Niche cannot be empty''), s)
      else if continuation_day' < 1
        then (Inl (ValueError ''Continuation day must be a positive integer''), s)
      else if fault e Connect then (Inr False, s)
      else if fault e Select then (Inr False, s)
      else
        let existing_today = filter (same_day (strip niche') (today e)) (rows s) in
        if existing_today \<noteq> [] \<and> fault e Delete then (Inr False, s)
        else
          let kept = (if existing_today \<noteq> []
                      then filter (\<lambda>r. \<not> same_day (strip niche') (today e) r) (rows s)
                      else rows s);
              new = new_row e title' niche' continuation_day' s
          in if fault e Insert \<or> 2 ^ 63 \<le> continuation_day' \<or> \<not> check_constraints new
             then (Inr False, s)
             else if fault e Commit then (Inr False, s)
             else (Inr True, \<lparr>rows = kept @ [new], last_id = next_id s\<rparr>))"

text \<open>
  \<open>get_current_day\<close>: the maximum over the rows of the niche from other days, then the
  first row of the niche from today (\<open>LIMIT 1\<close>, in rowid order) if there is one. Every
  \<open>sqlite3.Error\<close> is raised again.
\<close>

definition get_current_day :: "env \<Rightarrow> string \<Rightarrow> store \<Rightarrow> error + int" where
  "get_current_day e niche' s =
     (if niche' = [] \<or> strip niche' = [] then Inl (ValueError ''Niche cannot be empty'')
      else if fault e Connect \<or> fault e Select then Inl StorageError
      else
        let result = sql_max (map continuation_day
                       (filter (\<lambda>r. niche r = strip niche' \<and> generation_date r \<noteq> today e) (rows s)));
            max_day = (case result of Some m \<Rightarrow> m | None \<Rightarrow> 0);
            today_result = map continuation_day (filter (same_day (strip niche') (today e)) (rows s))
        in case today_result of
             d # _ \<Rightarrow> Inr (d - 1)
           | [] \<Rightarrow> Inr max_day)"

text \<open>\<open>check_for_duplication\<close>: \<open>SELECT COUNT(*) ... WHERE LOWER(title) = LOWER(?)\<close>.\<close>

definition check_for_duplication :: "env \<Rightarrow> string \<Rightarrow> store \<Rightarrow> error + bool" where
  "check_for_duplication e title' s =
     (if title' = [] \<or> strip title' = [] then Inl (ValueError ''Title cannot be empty'')
      else if fault e Connect \<or> fault e Select then Inl StorageError
      else Inr (length (filter (\<lambda>r. LOWER (title r) = LOWER (strip title')) (rows s)) > 0))"

subsection \<open>Notions of the specification\<close>

text \<open>
  The historical maximum in the specification's words: the maximum \<open>sequence_day\<close> over
  the entries of the category whose \<open>entry_date\<close> is not today, 0 if there are none.
\<close>

definition spec_historical_max :: "string \<Rightarrow> string \<Rightarrow> store \<Rightarrow> int" where
  "spec_historical_max c d s =
     (let days = map continuation_day
                   (filter (\<lambda>r. niche r = c \<and> generation_date r \<noteq> d) (rows s))
      in if days = [] then 0 else Max (set days))"

text \<open>
  The sequence invariant in the specification's words: within a category, an entry of a
  later calendar date has a \<open>sequence_day\<close> strictly greater than every entry of an
  earlier date. Dates are \<open>YYYY-MM-DD\<close> strings, ordered as strings.
\<close>

definition sequence_increasing :: "store \<Rightarrow> bool" where
  "sequence_increasing s =
     list_all (\<lambda>r2. list_all (\<lambda>r1.
         niche r1 = niche r2 \<and> generation_date r1 < generation_date r2
           \<longrightarrow> continuation_day r1 < continuation_day r2) (rows s)) (rows s)"

subsection \<open>Example data\<close>

definition mar02 :: env where
  "mar02 = \<lparr>today = ''2024-03-02'', now = ''2024-03-02T10:00:00'', fault = no_fault\<rparr>"

definition mar03 :: env where
  "mar03 = \<lparr>today = ''2024-03-03'', now = ''2024-03-03T08:30:00'', fault = no_fault\<rparr>"

definition mmo_mar01 :: row where
  "mmo_mar01 = \<lparr>idea_id = 2, title = ''B'', niche = ''MMO'', continuation_day = 5,
     created_at = ''2024-03-01T09:00:00'', generation_date = ''2024-03-01''\<rparr>"

definition mmo_mar02 :: row where
  "mmo_mar02 = \<lparr>idea_id = 3, title = ''Hello'', niche = ''MMO'', continuation_day = 6,
     created_at = ''2024-03-02T09:00:00'', generation_date = ''2024-03-02''\<rparr>"

definition faceless_mar02 :: row where
  "faceless_mar02 = \<lparr>idea_id = 4, title = ''F'', niche = ''Faceless'', continuation_day = 9,
     created_at = ''2024-03-02T09:30:00'', generation_date = ''2024-03-02''\<rparr>"

section \<open>Properties\<close>

subsection \<open>Helper facts\<close>

lemma strip_Nil: "strip [] = []"
  by (simp add: strip_def)

lemma strip_nonempty: "strip x \<noteq> [] \<Longrightarrow> x \<noteq> []"
  by (auto simp: strip_def)

subsection \<open>Argument validation\<close>

text \<open>
  Claim C5. \<open>log_idea\<close> raises \<open>ValueError\<close> (the spec's InvalidArgument) when the title
  is empty, when the category is empty or when the sequence day is below 1, and
  \<open>get_current_day\<close> and \<open>check_for_duplication\<close> raise it when their string argument is
  empty. This holds in every environment, also one in which each storage statement
  would fail, and for every store: the error comes before any storage access, and
  \<open>log_idea\<close> hands the store back as it was (the two readers have no store to change).
\<close>

theorem invalid_argument_before_storage:
  "(title' = [] \<or> niche' = [] \<or> d < 1 \<longrightarrow>
      (\<exists>m. log_idea e title' niche' d s = (Inl (ValueError m), s)))
   \<and> (niche' = [] \<longrightarrow> (\<exists>m. get_current_day e niche' s = Inl (ValueError m)))
   \<and> (title' = [] \<longrightarrow> (\<exists>m. check_for_duplication e title' s = Inl (ValueError m)))"
  by (simp add: log_idea_def get_current_day_def check_for_duplication_def)

theorem invalid_argument_before_storage_witness:
  "(\<exists>m. log_idea \<lparr>today = ''2024-03-02'', now = ''2024-03-02T10:00:00'', fault = (\<lambda>x. True)\<rparr>
          ''T'' ''X'' 0 \<lparr>rows = [], last_id = 7\<rparr>
        = (Inl (ValueError m), \<lparr>rows = [], last_id = 7\<rparr>))
   \<and> (\<exists>m. get_current_day \<lparr>today = ''2024-03-02'', now = ''2024-03-02T10:00:00'', fault = (\<lambda>x. True)\<rparr>
          [] \<lparr>rows = [], last_id = 7\<rparr> = Inl (ValueError m))
   \<and> (\<exists>m. check_for_duplication \<lparr>today = ''2024-03-02'', now = ''2024-03-02T10:00:00'', fault = (\<lambda>x. True)\<rparr>
          [] \<lparr>rows = [], last_id = 7\<rparr> = Inl (ValueError m))"
  using invalid_argument_before_storage
    [of "''T''" "[]" 0 "\<lparr>today = ''2024-03-02'', now = ''2024-03-02T10:00:00'', fault = (\<lambda>x. True)\<rparr>"
        "\<lparr>rows = [], last_id = 7\<rparr>"]
    invalid_argument_before_storage
    [of "''T''" "''X''" 0 "\<lparr>today = ''2024-03-02'', now = ''2024-03-02T10:00:00'', fault = (\<lambda>x. True)\<rparr>"
        "\<lparr>rows = [], last_id = 7\<rparr>"]
    invalid_argument_before_storage
    [of "[]" "''X''" 0 "\<lparr>today = ''2024-03-02'', now = ''2024-03-02T10:00:00'', fault = (\<lambda>x. True)\<rparr>"
        "\<lparr>rows = [], last_id = 7\<rparr>"]
  by simp

subsection \<open>Storage failures\<close>

text \<open>
  Claim C6. With valid arguments \<open>log_idea\<close> never raises: its result is a boolean. When
  the storage layer fails at a statement the call reaches (opening the connection, the
  SELECT, the DELETE when there are rows of today to delete, the INSERT, the commit), the
  result is \<open>False\<close> and the store is the one before the call. \<open>get_current_day\<close> and
  \<open>check_for_duplication\<close> raise the storage error instead of returning a value.
\<close>

theorem storage_failure_results:
  assumes "strip title' \<noteq> []" and "strip niche' \<noteq> []" and "1 \<le> d"
  shows "(\<exists>b. fst (log_idea e title' niche' d s) = Inr b)
   \<and> (fault e Connect \<or> fault e Select \<or> fault e Insert \<or> fault e Commit
        \<or> (fault e Delete \<and> (\<exists>r \<in> set (rows s). same_day (strip niche') (today e) r))
      \<longrightarrow> log_idea e title' niche' d s = (Inr False, s))
   \<and> (fault e Connect \<or> fault e Select \<longrightarrow>
        get_current_day e niche' s = Inl StorageError
        \<and> check_for_duplication e title' s = Inl StorageError)"
proof -
  from assms have ne: "title' \<noteq> []" "niche' \<noteq> []"
    by (auto dest: strip_nonempty)
  have raises: "\<exists>b. fst (log_idea e title' niche' d s) = Inr b"
    using assms ne by (auto simp: log_idea_def Let_def)
  have del: "filter (same_day (strip niche') (today e)) (rows s) \<noteq> []"
    if "\<exists>r \<in> set (rows s). same_day (strip niche') (today e) r"
    using that by (auto simp: filter_empty_conv)
  have false: "log_idea e title' niche' d s = (Inr False, s)"
    if "fault e Connect \<or> fault e Select \<or> fault e Insert \<or> fault e Commit
        \<or> (fault e Delete \<and> (\<exists>r \<in> set (rows s). same_day (strip niche') (today e) r))"
    using that assms ne del by (auto simp: log_idea_def Let_def)
  have readers: "get_current_day e niche' s = Inl StorageError
        \<and> check_for_duplication e title' s = Inl StorageError"
    if "fault e Connect \<or> fault e Select"
    using that assms ne by (auto simp: get_current_day_def check_for_duplication_def)
  from raises false readers show ?thesis by blast
qed

theorem storage_failure_results_witness:
  "strip ''T'' \<noteq> [] \<and> strip ''MMO'' \<noteq> [] \<and> (1::int) \<le> 1
   \<and> log_idea \<lparr>today = ''2024-03-02'', now = ''2024-03-02T10:00:00'', fault = (\<lambda>x. x = Insert)\<rparr>
        ''T'' ''MMO'' 1
        \<lparr>rows = [\<lparr>idea_id = 1, title = ''A'', niche = ''MMO'', continuation_day = 1,
                   created_at = ''2024-03-02T09:00:00'', generation_date = ''2024-03-02''\<rparr>],
          last_id = 1\<rparr>
     = (Inr False,
        \<lparr>rows = [\<lparr>idea_id = 1, title = ''A'', niche = ''MMO'', continuation_day = 1,
                   created_at = ''2024-03-02T09:00:00'', generation_date = ''2024-03-02''\<rparr>],
          last_id = 1\<rparr>)
   \<and> get_current_day \<lparr>today = ''2024-03-02'', now = ''2024-03-02T10:00:00'', fault = (\<lambda>x. x = Select)\<rparr>
        ''MMO'' empty_store = Inl StorageError
   \<and> check_for_duplication \<lparr>today = ''2024-03-02'', now = ''2024-03-02T10:00:00'', fault = (\<lambda>x. x = Select)\<rparr>
        ''T'' empty_store = Inl StorageError"
  using storage_failure_results
    [of "''T''" "''MMO''" 1
        "\<lparr>today = ''2024-03-02'', now = ''2024-03-02T10:00:00'', fault = (\<lambda>x. x = Insert)\<rparr>"
        "\<lparr>rows = [\<lparr>idea_id = 1, title = ''A'', niche = ''MMO'', continuation_day = 1,
                   created_at = ''2024-03-02T09:00:00'', generation_date = ''2024-03-02''\<rparr>],
          last_id = 1\<rparr>"]
    storage_failure_results
    [of "''T''" "''MMO''" 1
        "\<lparr>today = ''2024-03-02'', now = ''2024-03-02T10:00:00'', fault = (\<lambda>x. x = Select)\<rparr>"
        empty_store]
  by (simp add: strip_def py_isspace_def)

subsection \<open>The current day\<close>

lemma fold_max_Max: "fold max xs (x::int) = Max (set (x # xs))"
proof (induction xs arbitrary: x)
  case Nil
  then show ?case by simp
next
  case (Cons y ys)
  have "fold max (y # ys) x = fold max ys (max y x)" by simp
  also have "\<dots> = Max (set (max y x # ys))" by (rule Cons.IH)
  also have "\<dots> = Max (set (x # y # ys))"
    by (cases "ys = []") (auto simp: max.commute max.left_commute)
  finally show ?case .
qed

lemma sql_max_spec:
  "(case sql_max xs of Some m \<Rightarrow> m | None \<Rightarrow> 0) = (if xs = [] then 0 else Max (set xs))"
  by (cases xs)
    (simp_all only: sql_max.simps option.case fold_max_Max list.distinct if_False if_True refl)

lemma find_filter: "find P xs = (case filter P xs of [] \<Rightarrow> None | x # _ \<Rightarrow> Some x)"
  by (induction xs) auto

lemma get_current_day_eq:
  assumes "strip niche' \<noteq> []" and "\<not> fault e Connect" and "\<not> fault e Select"
  shows "get_current_day e niche' s =
     Inr (case find (same_day (strip niche') (today e)) (rows s) of
            Some r \<Rightarrow> continuation_day r - 1
          | None \<Rightarrow> spec_historical_max (strip niche') (today e) s)"
proof -
  from assms(1) have ne: "niche' \<noteq> []" by (rule strip_nonempty)
  show ?thesis
  proof (cases "filter (same_day (strip niche') (today e)) (rows s)")
    case Nil
    then show ?thesis using assms ne
      by (simp add: get_current_day_def Let_def find_filter spec_historical_max_def sql_max_spec)
  next
    case (Cons r rs)
    then show ?thesis using assms ne
      by (simp add: get_current_day_def Let_def find_filter)
  qed
qed

text \<open>
  Claim C2, as stated, fails: a category of white space only is not empty, yet
  \<open>get_current_day\<close> raises \<open>ValueError\<close> for it; and for a padded category the rows read
  are those of the trimmed category.
\<close>

theorem get_current_day_blank_counterexample:
  "'' '' \<noteq> []
   \<and> get_current_day \<lparr>today = ''2024-03-02'', now = ''2024-03-02T10:00:00'', fault = no_fault\<rparr>
        '' '' \<lparr>rows = [], last_id = 0\<rparr> = Inl (ValueError ''Niche cannot be empty'')
   \<and> '' MMO'' \<noteq> ''MMO''
   \<and> get_current_day \<lparr>today = ''2024-03-02'', now = ''2024-03-02T10:00:00'', fault = no_fault\<rparr>
        '' MMO''
        \<lparr>rows = [\<lparr>idea_id = 2, title = ''B'', niche = ''MMO'', continuation_day = 5,
                  created_at = ''2024-03-01T09:00:00'', generation_date = ''2024-03-01''\<rparr>],
         last_id = 2\<rparr> = Inr 5"
  by (simp add: get_current_day_def strip_def py_isspace_def no_fault_def same_day_def)

text \<open>
  Claim C2, amended. For every category argument whose trimmed form \<open>c\<close> is not empty,
  when the storage layer does not fail, \<open>get_current_day\<close> returns: the sequence day minus
  1 of the first stored entry of \<open>c\<close> dated today, if there is one; otherwise the maximum
  sequence day over the stored entries of \<open>c\<close> not dated today, 0 if there are none. On an
  empty store it returns 0.
\<close>

theorem get_current_day_value:
  assumes "strip niche' \<noteq> []" and "\<not> fault e Connect" and "\<not> fault e Select"
  shows "get_current_day e niche' s =
     Inr (case find (same_day (strip niche') (today e)) (rows s) of
            Some r \<Rightarrow> continuation_day r - 1
          | None \<Rightarrow> spec_historical_max (strip niche') (today e) s)
   \<and> (rows s = [] \<longrightarrow> get_current_day e niche' s = Inr 0)"
  using get_current_day_eq [OF assms, of s] by (simp add: spec_historical_max_def)

theorem get_current_day_value_witness:
  "strip ''MMO'' \<noteq> []
   \<and> get_current_day \<lparr>today = ''2024-03-02'', now = ''2024-03-02T10:00:00'', fault = no_fault\<rparr> ''MMO''
       \<lparr>rows = [\<lparr>idea_id = 1, title = ''A'', niche = ''MMO'', continuation_day = 4,
                  created_at = ''2024-02-29T09:00:00'', generation_date = ''2024-02-29''\<rparr>,
                 \<lparr>idea_id = 2, title = ''B'', niche = ''MMO'', continuation_day = 5,
                  created_at = ''2024-03-01T09:00:00'', generation_date = ''2024-03-01''\<rparr>,
                 \<lparr>idea_id = 3, title = ''C'', niche = ''Faceless'', continuation_day = 9,
                  created_at = ''2024-03-01T09:00:00'', generation_date = ''2024-03-01''\<rparr>],
         last_id = 3\<rparr> = Inr 5
   \<and> get_current_day \<lparr>today = ''2024-03-02'', now = ''2024-03-02T10:00:00'', fault = no_fault\<rparr> ''MMO''
       \<lparr>rows = [\<lparr>idea_id = 2, title = ''B'', niche = ''MMO'', continuation_day = 5,
                  created_at = ''2024-03-01T09:00:00'', generation_date = ''2024-03-01''\<rparr>,
                 \<lparr>idea_id = 4, title = ''D'', niche = ''MMO'', continuation_day = 6,
                  created_at = ''2024-03-02T09:00:00'', generation_date = ''2024-03-02''\<rparr>],
         last_id = 4\<rparr> = Inr 5
   \<and> get_current_day \<lparr>today = ''2024-03-02'', now = ''2024-03-02T10:00:00'', fault = no_fault\<rparr> ''MMO''
       \<lparr>rows = [], last_id = 0\<rparr> = Inr 0"
  using get_current_day_value
    [of "''MMO''" "\<lparr>today = ''2024-03-02'', now = ''2024-03-02T10:00:00'', fault = no_fault\<rparr>"
       "\<lparr>rows = [\<lparr>idea_id = 1, title = ''A'', niche = ''MMO'', continuation_day = 4,
                  created_at = ''2024-02-29T09:00:00'', generation_date = ''2024-02-29''\<rparr>,
                 \<lparr>idea_id = 2, title = ''B'', niche = ''MMO'', continuation_day = 5,
                  created_at = ''2024-03-01T09:00:00'', generation_date = ''2024-03-01''\<rparr>,
                 \<lparr>idea_id = 3, title = ''C'', niche = ''Faceless'', continuation_day = 9,
                  created_at = ''2024-03-01T09:00:00'', generation_date = ''2024-03-01''\<rparr>],
         last_id = 3\<rparr>"]
    get_current_day_value
    [of "''MMO''" "\<lparr>today = ''2024-03-02'', now = ''2024-03-02T10:00:00'', fault = no_fault\<rparr>"
       "\<lparr>rows = [\<lparr>idea_id = 2, title = ''B'', niche = ''MMO'', continuation_day = 5,
                  created_at = ''2024-03-01T09:00:00'', generation_date = ''2024-03-01''\<rparr>,
                 \<lparr>idea_id = 4, title = ''D'', niche = ''MMO'', continuation_day = 6,
                  created_at = ''2024-03-02T09:00:00'', generation_date = ''2024-03-02''\<rparr>],
         last_id = 4\<rparr>"]
    get_current_day_value
    [of "''MMO''" "\<lparr>today = ''2024-03-02'', now = ''2024-03-02T10:00:00'', fault = no_fault\<rparr>"
       "\<lparr>rows = [], last_id = 0\<rparr>"]
  by (simp add: strip_def py_isspace_def no_fault_def same_day_def spec_historical_max_def)

text \<open>
  Claim C7, as stated, fails: \<open>get_current_day\<close> has no check against the set of
  categories. For a category outside the set it returns a day, here 0 on the empty store.
\<close>

theorem get_current_day_unrecognized_counterexample:
  "''Cooking'' \<notin> set allowed_niches
   \<and> get_current_day \<lparr>today = ''2024-03-02'', now = ''2024-03-02T10:00:00'', fault = no_fault\<rparr>
        ''Cooking'' \<lparr>rows = [], last_id = 0\<rparr> = Inr 0"
  by (simp add: get_current_day_def strip_def py_isspace_def no_fault_def same_day_def
      allowed_niches_def)

text \<open>
  Claim C7, amended. \<open>get_current_day\<close> raises \<open>ValueError\<close> exactly when the category
  argument is empty or white space only. A category that no stored entry carries, whether
  in the configured set or not, is answered with 0 when the storage layer does not fail.
\<close>

theorem get_current_day_invalid_iff:
  "((\<exists>m. get_current_day e niche' s = Inl (ValueError m)) \<longleftrightarrow> strip niche' = [])
   \<and> (strip niche' \<noteq> [] \<and> \<not> fault e Connect \<and> \<not> fault e Select
        \<and> (\<forall>r \<in> set (rows s). niche r \<noteq> strip niche') \<longrightarrow> get_current_day e niche' s = Inr 0)"
proof -
  have a: "(\<exists>m. get_current_day e niche' s = Inl (ValueError m)) \<longleftrightarrow> strip niche' = []"
    by (auto simp: get_current_day_def Let_def strip_Nil split: list.splits)
  have f1: "filter (same_day (strip niche') (today e)) (rows s) = []"
    if "\<forall>r \<in> set (rows s). niche r \<noteq> strip niche'"
    using that by (auto simp: filter_empty_conv same_day_def)
  have f2: "filter (\<lambda>r. niche r = strip niche' \<and> generation_date r \<noteq> today e) (rows s) = []"
    if "\<forall>r \<in> set (rows s). niche r \<noteq> strip niche'"
    using that by (auto simp: filter_empty_conv)
  have b: "get_current_day e niche' s = Inr 0"
    if "strip niche' \<noteq> []" "\<not> fault e Connect" "\<not> fault e Select"
       "\<forall>r \<in> set (rows s). niche r \<noteq> strip niche'"
    using get_current_day_eq [OF that(1-3), of s] f1 [OF that(4)] f2 [OF that(4)]
    by (simp add: find_filter spec_historical_max_def)
  from a b show ?thesis by blast
qed

theorem get_current_day_invalid_iff_witness:
  "strip ''Cooking'' \<noteq> []
   \<and> ''MMO'' \<noteq> strip ''Cooking''
   \<and> get_current_day \<lparr>today = ''2024-03-02'', now = ''2024-03-02T10:00:00'', fault = no_fault\<rparr>
        ''Cooking''
        \<lparr>rows = [\<lparr>idea_id = 2, title = ''B'', niche = ''MMO'', continuation_day = 5,
                  created_at = ''2024-03-01T09:00:00'', generation_date = ''2024-03-01''\<rparr>],
         last_id = 2\<rparr> = Inr 0
   \<and> (\<exists>m. get_current_day \<lparr>today = ''2024-03-02'', now = ''2024-03-02T10:00:00'', fault = no_fault\<rparr>
        ''  '' \<lparr>rows = [], last_id = 0\<rparr> = Inl (ValueError m))"
  using get_current_day_invalid_iff
    [of "\<lparr>today = ''2024-03-02'', now = ''2024-03-02T10:00:00'', fault = no_fault\<rparr>" "''Cooking''"
        "\<lparr>rows = [\<lparr>idea_id = 2, title = ''B'', niche = ''MMO'', continuation_day = 5,
                  created_at = ''2024-03-01T09:00:00'', generation_date = ''2024-03-01''\<rparr>],
         last_id = 2\<rparr>"]
    get_current_day_invalid_iff
    [of "\<lparr>today = ''2024-03-02'', now = ''2024-03-02T10:00:00'', fault = no_fault\<rparr>" "''  ''"
        "\<lparr>rows = [], last_id = 0\<rparr>"]
  by (simp add: strip_def py_isspace_def no_fault_def)

subsection \<open>What a successful \<open>log_idea\<close> writes\<close>

lemma filter_not_same_day:
  "filter (same_day c d) xs = [] \<Longrightarrow> filter (\<lambda>r. \<not> same_day c d r) xs = xs"
  by (induction xs) (auto split: if_splits)

lemma log_idea_success:
  assumes "log_idea e title' niche' d s = (Inr True, s')"
  shows "rows s' = filter (\<lambda>r. \<not> same_day (strip niche') (today e) r) (rows s)
                     @ [new_row e title' niche' d s]"
    and "last_id s' = next_id s"
    and "strip title' \<noteq> []" and "strip niche' \<noteq> []" and "1 \<le> d"
    and "strip niche' \<in> set allowed_niches"
  using assms
  by (auto simp: log_idea_def Let_def new_row_def filter_not_same_day check_constraints_def
      split: if_splits)

lemma log_idea_unchanged:
  assumes "log_idea e title' niche' d s = (res, s')" and "res \<noteq> Inr True"
  shows "s' = s"
  using assms by (auto simp: log_idea_def Let_def split: if_splits)

lemma same_day_new_row: "same_day (strip niche') (today e) (new_row e title' niche' d s)"
  by (simp add: same_day_def new_row_def)

lemma log_idea_today_rows:
  assumes "log_idea e title' niche' d s = (Inr True, s')"
  shows "filter (same_day (strip niche') (today e)) (rows s') = [new_row e title' niche' d s]"
  using log_idea_success(1) [OF assms] by (simp add: same_day_new_row)

lemma log_idea_other_rows:
  assumes "log_idea e title' niche' d s = (Inr True, s')"
  shows "filter (\<lambda>r. \<not> same_day (strip niche') (today e) r) (rows s')
         = filter (\<lambda>r. \<not> same_day (strip niche') (today e) r) (rows s)"
  using log_idea_success(1) [OF assms] by (simp add: same_day_new_row)

lemmas example_defs = mar02_def mar03_def mmo_mar01_def mmo_mar02_def faceless_mar02_def
  empty_store_def no_fault_def

lemmas eval_defs = log_idea_def new_row_def next_id_def strip_def py_isspace_def same_day_def
  check_constraints_def allowed_niches_def


subsection \<open>Same-day overwrite\<close>

text \<open>
  Claim C3, as stated, fails: \<open>log_idea\<close> stores the trimmed title, so after a second
  successful call with the title \<open>'' B''\<close> the one entry of today is titled \<open>''B''\<close>.
\<close>

theorem same_day_overwrite_counterexample:
  "fst (log_idea mar02 ''A'' ''MMO'' 5 empty_store) = Inr True
   \<and> fst (log_idea mar02 '' B'' ''MMO'' 5 (snd (log_idea mar02 ''A'' ''MMO'' 5 empty_store)))
       = Inr True
   \<and> map title (rows (snd (log_idea mar02 '' B'' ''MMO'' 5
                              (snd (log_idea mar02 ''A'' ''MMO'' 5 empty_store))))) = [''B'']
   \<and> ''B'' \<noteq> '' B''"
  by (simp add: eval_defs example_defs)

text \<open>
  Claim C3, amended. For every category argument and any starting store, after
  \<open>log_idea(t1, C, d1)\<close> succeeds and then \<open>log_idea(t2, C, d2)\<close> succeeds on the same
  calendar day, exactly one entry exists for the trimmed category with the date of today;
  its title is the trimmed \<open>t2\<close> and its sequence day is \<open>d2\<close>.
\<close>

theorem same_day_overwrite:
  assumes "today e2 = today e1"
    and "log_idea e1 t1 niche' d1 s = (Inr True, s1)"
    and "log_idea e2 t2 niche' d2 s1 = (Inr True, s2)"
  shows "\<exists>r. filter (same_day (strip niche') (today e1)) (rows s2) = [r]
             \<and> title r = strip t2 \<and> niche r = strip niche' \<and> continuation_day r = d2
             \<and> generation_date r = today e1"
  using log_idea_today_rows [OF assms(3)] assms(1) by (simp add: new_row_def)

theorem same_day_overwrite_witness:
  "today mar02 = today mar02
   \<and> log_idea mar02 ''A'' ''MMO'' 5 \<lparr>rows = [mmo_mar01, mmo_mar02, faceless_mar02], last_id = 4\<rparr>
       = (Inr True,
          \<lparr>rows = [mmo_mar01, faceless_mar02,
                   \<lparr>idea_id = 5, title = ''A'', niche = ''MMO'', continuation_day = 5,
                    created_at = ''2024-03-02T10:00:00'', generation_date = ''2024-03-02''\<rparr>],
           last_id = 5\<rparr>)
   \<and> log_idea mar02 ''B'' ''MMO'' 5
        \<lparr>rows = [mmo_mar01, faceless_mar02,
                   \<lparr>idea_id = 5, title = ''A'', niche = ''MMO'', continuation_day = 5,
                    created_at = ''2024-03-02T10:00:00'', generation_date = ''2024-03-02''\<rparr>],
           last_id = 5\<rparr>
       = (Inr True,
          \<lparr>rows = [mmo_mar01, faceless_mar02,
                   \<lparr>idea_id = 6, title = ''B'', niche = ''MMO'', continuation_day = 5,
                    created_at = ''2024-03-02T10:00:00'', generation_date = ''2024-03-02''\<rparr>],
           last_id = 6\<rparr>)
   \<and> (\<exists>r. filter (same_day (strip ''MMO'') (today mar02))
               [mmo_mar01, faceless_mar02,
                   \<lparr>idea_id = 6, title = ''B'', niche = ''MMO'', continuation_day = 5,
                    created_at = ''2024-03-02T10:00:00'', generation_date = ''2024-03-02''\<rparr>] = [r]
           \<and> title r = ''B'')"
  using same_day_overwrite
    [where ?e1.0 = mar02 and ?e2.0 = mar02 and ?t1.0 = "''A''" and ?t2.0 = "''B''"
       and niche' = "''MMO''" and ?d1.0 = 5 and ?d2.0 = 5
       and s = "\<lparr>rows = [mmo_mar01, mmo_mar02, faceless_mar02], last_id = 4\<rparr>"
       and ?s1.0 = "\<lparr>rows = [mmo_mar01, faceless_mar02,
                   \<lparr>idea_id = 5, title = ''A'', niche = ''MMO'', continuation_day = 5,
                    created_at = ''2024-03-02T10:00:00'', generation_date = ''2024-03-02''\<rparr>],
           last_id = 5\<rparr>"
       and ?s2.0 = "\<lparr>rows = [mmo_mar01, faceless_mar02,
                   \<lparr>idea_id = 6, title = ''B'', niche = ''MMO'', continuation_day = 5,
                    created_at = ''2024-03-02T10:00:00'', generation_date = ''2024-03-02''\<rparr>],
           last_id = 6\<rparr>"]
  by (simp add: eval_defs example_defs)

subsection \<open>The frame of \<open>log_idea\<close>\<close>

text \<open>
  Claim C9, as stated, fails: the rows deleted are those of the trimmed category. A
  successful call for the category \<open>''MMO ''\<close> removes today's entry of the different
  category \<open>''MMO''\<close>.
\<close>

theorem log_idea_frame_counterexample:
  "log_idea mar02 ''T'' ''MMO '' 7 \<lparr>rows = [mmo_mar02], last_id = 3\<rparr>
     = (Inr True,
        \<lparr>rows = [\<lparr>idea_id = 4, title = ''T'', niche = ''MMO'', continuation_day = 7,
                  created_at = ''2024-03-02T10:00:00'', generation_date = ''2024-03-02''\<rparr>],
         last_id = 4\<rparr>)
   \<and> niche mmo_mar02 \<noteq> ''MMO ''
   \<and> mmo_mar02 \<noteq> \<lparr>idea_id = 4, title = ''T'', niche = ''MMO'', continuation_day = 7,
                  created_at = ''2024-03-02T10:00:00'', generation_date = ''2024-03-02''\<rparr>"
  by (simp add: eval_defs example_defs)

text \<open>
  Claim C9, amended. A successful \<open>log_idea(title, C, d)\<close> removes only entries whose
  category is the trimmed \<open>C\<close> and whose date is today: the stored entries of any other
  category or of any other date are the same before and after, in the same order, and
  each of them is still present.
\<close>

theorem log_idea_frame:
  assumes "log_idea e title' niche' d s = (Inr True, s')"
  shows "filter (\<lambda>r. \<not> (niche r = strip niche' \<and> generation_date r = today e)) (rows s')
         = filter (\<lambda>r. \<not> (niche r = strip niche' \<and> generation_date r = today e)) (rows s)
   \<and> (\<forall>r \<in> set (rows s). niche r \<noteq> strip niche' \<or> generation_date r \<noteq> today e
          \<longrightarrow> r \<in> set (rows s'))
   \<and> (\<forall>r \<in> set (rows s). r \<notin> set (rows s')
          \<longrightarrow> niche r = strip niche' \<and> generation_date r = today e)"
proof -
  have eq: "filter (\<lambda>r. \<not> (niche r = strip niche' \<and> generation_date r = today e)) (rows s')
         = filter (\<lambda>r. \<not> (niche r = strip niche' \<and> generation_date r = today e)) (rows s)"
    using log_idea_other_rows [OF assms] by (simp add: same_day_def)
  have "set (filter (\<lambda>r. \<not> (niche r = strip niche' \<and> generation_date r = today e)) (rows s'))
         = set (filter (\<lambda>r. \<not> (niche r = strip niche' \<and> generation_date r = today e)) (rows s))"
    by (simp only: eq)
  then have mem: "r \<in> set (rows s')" if "r \<in> set (rows s)"
      "\<not> (niche r = strip niche' \<and> generation_date r = today e)" for r
    using that by auto
  from eq mem show ?thesis by blast
qed

theorem log_idea_frame_witness:
  "log_idea mar02 ''A'' ''MMO'' 6 \<lparr>rows = [mmo_mar01, mmo_mar02, faceless_mar02], last_id = 4\<rparr>
       = (Inr True,
          \<lparr>rows = [mmo_mar01, faceless_mar02,
                   \<lparr>idea_id = 5, title = ''A'', niche = ''MMO'', continuation_day = 6,
                    created_at = ''2024-03-02T10:00:00'', generation_date = ''2024-03-02''\<rparr>],
           last_id = 5\<rparr>)
   \<and> filter (\<lambda>r. \<not> (niche r = strip ''MMO'' \<and> generation_date r = today mar02))
        [mmo_mar01, faceless_mar02,
                   \<lparr>idea_id = 5, title = ''A'', niche = ''MMO'', continuation_day = 6,
                    created_at = ''2024-03-02T10:00:00'', generation_date = ''2024-03-02''\<rparr>]
      = [mmo_mar01, faceless_mar02]
   \<and> filter (\<lambda>r. \<not> (niche r = strip ''MMO'' \<and> generation_date r = today mar02))
        [mmo_mar01, mmo_mar02, faceless_mar02]
      = [mmo_mar01, faceless_mar02]"
  using log_idea_frame
    [of mar02 "''A''" "''MMO''" 6 "\<lparr>rows = [mmo_mar01, mmo_mar02, faceless_mar02], last_id = 4\<rparr>"
       "\<lparr>rows = [mmo_mar01, faceless_mar02,
                   \<lparr>idea_id = 5, title = ''A'', niche = ''MMO'', continuation_day = 6,
                    created_at = ''2024-03-02T10:00:00'', generation_date = ''2024-03-02''\<rparr>],
           last_id = 5\<rparr>"]
  by (simp add: eval_defs example_defs)

subsection \<open>Categories outside the configured set\<close>

text \<open>
  Claim C10, as stated, fails twice. The category \<open>''MMO ''\<close> is not empty and is not
  one of the three configured strings, yet \<open>log_idea\<close> trims it, the CHECK constraint
  accepts the row and the call returns \<open>True\<close>. And the title \<open>'' ''\<close> is not empty,
  yet the call raises \<open>ValueError\<close>.
\<close>

theorem unknown_category_counterexample:
  "''MMO '' \<noteq> [] \<and> ''MMO '' \<notin> set allowed_niches
   \<and> log_idea mar02 ''T'' ''MMO '' 1 empty_store
     = (Inr True,
        \<lparr>rows = [\<lparr>idea_id = 1, title = ''T'', niche = ''MMO'', continuation_day = 1,
                  created_at = ''2024-03-02T10:00:00'', generation_date = ''2024-03-02''\<rparr>],
         last_id = 1\<rparr>)
   \<and> '' '' \<noteq> [] \<and> ''Cooking'' \<notin> set allowed_niches
   \<and> log_idea mar02 '' '' ''Cooking'' 1 empty_store
     = (Inl (ValueError ''Title cannot be empty''), empty_store)"
  by (simp add: eval_defs example_defs)

text \<open>
  Claim C10, amended. For every title and category whose trimmed forms are not empty and
  every sequence day of at least 1, if the trimmed category is outside the configured
  set then \<open>log_idea\<close> does not raise and does not insert: it returns \<open>False\<close> and the
  store is the one before the call, in every environment.
\<close>

theorem unknown_category_rejected:
  assumes "strip title' \<noteq> []" and "strip niche' \<noteq> []" and "1 \<le> d"
    and "strip niche' \<notin> set allowed_niches"
  shows "log_idea e title' niche' d s = (Inr False, s)"
  using assms strip_nonempty [OF assms(1)] strip_nonempty [OF assms(2)]
  by (auto simp: log_idea_def Let_def check_constraints_def new_row_def)

theorem unknown_category_rejected_witness:
  "strip ''T'' \<noteq> [] \<and> strip ''Cooking'' \<noteq> [] \<and> (1::int) \<le> 3
   \<and> strip ''Cooking'' \<notin> set allowed_niches
   \<and> log_idea mar02 ''T'' ''Cooking'' 3 \<lparr>rows = [mmo_mar01], last_id = 2\<rparr>
       = (Inr False, \<lparr>rows = [mmo_mar01], last_id = 2\<rparr>)"
  using unknown_category_rejected
    [of "''T''" "''Cooking''" 3 mar02 "\<lparr>rows = [mmo_mar01], last_id = 2\<rparr>"]
  by (simp add: strip_def py_isspace_def allowed_niches_def)

subsection \<open>Duplicate titles\<close>




subsection \<open>Regeneration within a day\<close>

lemma get_current_day_Inr:
  assumes "get_current_day e niche' s = Inr g"
  shows "strip niche' \<noteq> []" and "\<not> fault e Connect" and "\<not> fault e Select"
  using assms by (auto simp: get_current_day_def split: if_splits)

lemma find_None_filter: "find P xs = None \<longleftrightarrow> filter P xs = []"
  by (simp add: find_filter split: list.splits)

lemma hist_le:
  assumes "r \<in> set (rows s)" and "niche r = c" and "generation_date r \<noteq> d"
  shows "continuation_day r \<le> spec_historical_max c d s"
proof -
  let ?days = "map continuation_day
                 (filter (\<lambda>r. niche r = c \<and> generation_date r \<noteq> d) (rows s))"
  from assms have mem: "continuation_day r \<in> set ?days" by auto
  then have "?days \<noteq> []" by (metis empty_iff empty_set)
  moreover from mem have "continuation_day r \<le> Max (set ?days)" by (intro Max_ge) auto
  ultimately show ?thesis by (simp add: spec_historical_max_def Let_def)
qed

lemma log_idea_rows_cases:
  "rows (snd (log_idea e t niche' d s)) = rows s
   \<or> rows (snd (log_idea e t niche' d s))
        = filter (\<lambda>r. \<not> same_day (strip niche') (today e) r) (rows s) @ [new_row e t niche' d s]"
proof (cases "fst (log_idea e t niche' d s) = Inr True")
  case True
  then have "log_idea e t niche' d s = (Inr True, snd (log_idea e t niche' d s))"
    by (metis prod.collapse)
  from log_idea_success(1) [OF this] show ?thesis by simp
next
  case False
  then have "snd (log_idea e t niche' d s) = s"
    using log_idea_unchanged [of e t niche' d s] by (metis prod.collapse)
  then show ?thesis by simp
qed

text \<open>
  Claim C1: within one calendar day, any number of calls of \<open>log_idea\<close> for a category
  leaves the value of \<open>get_current_day\<close> for it where it was before the first of them.
  The docstring of \<open>get_current_day\<close> promises the same (only historical days are
  considered, so that several generations on one day do not increment the day counter).
  The code does otherwise: it reports the sequence day of today's entry minus 1. A
  generation run writes consecutive days for a category; on the empty store, after the
  same-day writes of the days 1 and 2 the reported day has moved from 0 to 1, and on a
  store whose last entry is day 5 of yesterday, after the same-day writes of the days 6,
  7 and 8 it has moved from 5 to 7.
\<close>

theorem same_day_regeneration_advances:
  "get_current_day mar02 ''MMO'' empty_store = Inr 0
   \<and> fst (log_idea mar02 ''A'' ''MMO'' 1 empty_store) = Inr True
   \<and> fst (log_idea mar02 ''B'' ''MMO'' 2 (snd (log_idea mar02 ''A'' ''MMO'' 1 empty_store)))
       = Inr True
   \<and> get_current_day mar02 ''MMO''
       (snd (log_idea mar02 ''B'' ''MMO'' 2 (snd (log_idea mar02 ''A'' ''MMO'' 1 empty_store))))
       = Inr 1
   \<and> get_current_day mar02 ''MMO'' \<lparr>rows = [mmo_mar01], last_id = 2\<rparr> = Inr 5
   \<and> log_idea mar02 ''E'' ''MMO'' 8
        (snd (log_idea mar02 ''D'' ''MMO'' 7
           (snd (log_idea mar02 ''C'' ''MMO'' 6 \<lparr>rows = [mmo_mar01], last_id = 2\<rparr>))))
       = (Inr True,
          \<lparr>rows = [mmo_mar01,
                   \<lparr>idea_id = 5, title = ''E'', niche = ''MMO'', continuation_day = 8,
                    created_at = ''2024-03-02T10:00:00'', generation_date = ''2024-03-02''\<rparr>],
           last_id = 5\<rparr>)
   \<and> get_current_day mar02 ''MMO''
        \<lparr>rows = [mmo_mar01,
                   \<lparr>idea_id = 5, title = ''E'', niche = ''MMO'', continuation_day = 8,
                    created_at = ''2024-03-02T10:00:00'', generation_date = ''2024-03-02''\<rparr>],
           last_id = 5\<rparr> = Inr 7"
  by (simp add: get_current_day_def eval_defs example_defs)

subsection \<open>The sequence invariant\<close>

lemma sequence_increasing_iff:
  "sequence_increasing s \<longleftrightarrow>
     (\<forall>r2 \<in> set (rows s). \<forall>r1 \<in> set (rows s).
        niche r1 = niche r2 \<and> generation_date r1 < generation_date r2
          \<longrightarrow> continuation_day r1 < continuation_day r2)"
  by (simp add: sequence_increasing_def list_all_iff)

lemma prior_le_current:
  assumes "sequence_increasing s" and "get_current_day e niche' s = Inr g"
    and "r \<in> set (rows s)" and "niche r = strip niche'" and "generation_date r < today e"
  shows "continuation_day r \<le> g"
proof (cases "find (same_day (strip niche') (today e)) (rows s)")
  case None
  with get_current_day_eq [OF get_current_day_Inr [OF assms(2)], of s] assms(2)
  have "g = spec_historical_max (strip niche') (today e) s" by simp
  moreover from assms(5) have "generation_date r \<noteq> today e" by simp
  ultimately show ?thesis using hist_le [OF assms(3) assms(4)] by simp
next
  case (Some rt)
  with get_current_day_eq [OF get_current_day_Inr [OF assms(2)], of s] assms(2)
  have g: "g = continuation_day rt - 1" by simp
  from Some have rt: "rt \<in> set (rows s)" "same_day (strip niche') (today e) rt"
    by (auto simp: find_Some_iff in_set_conv_nth)
  with assms(4) assms(5) have "niche r = niche rt \<and> generation_date r < generation_date rt"
    by (simp add: same_day_def)
  with assms(1) assms(3) rt(1) have "continuation_day r < continuation_day rt"
    unfolding sequence_increasing_iff by blast
  with g show ?thesis by simp
qed

text \<open>
  Claim C4, as stated, fails: \<open>log_idea\<close> compares its sequence day with nothing that is
  stored. On a store whose only entry has the sequence day 5 and the date of yesterday,
  a write of today with the sequence day 1 succeeds and breaks the invariant.
\<close>

theorem sequence_invariant_counterexample:
  "sequence_increasing \<lparr>rows = [mmo_mar01], last_id = 2\<rparr>
   \<and> fst (log_idea mar02 ''T'' ''MMO'' 1 \<lparr>rows = [mmo_mar01], last_id = 2\<rparr>) = Inr True
   \<and> \<not> sequence_increasing (snd (log_idea mar02 ''T'' ''MMO'' 1 \<lparr>rows = [mmo_mar01], last_id = 2\<rparr>))"
  by (simp add: sequence_increasing_def eval_defs example_defs)

text \<open>
  Claim C4, amended. The tracker does not enforce the invariant; it keeps it when the
  caller follows the sequence. If within every category an entry of a later date has a
  sequence day strictly greater than every entry of an earlier date, no stored entry is
  dated after today, and \<open>g\<close> is what \<open>get_current_day(C)\<close> returns today, then after
  \<open>log_idea(t, C, d)\<close> with \<open>d > g\<close> (for one, \<open>d = g + 1\<close>) the same holds of the new
  store, whether the call succeeds or not. The two readers do not write.
\<close>

theorem log_idea_keeps_sequence:
  assumes "sequence_increasing s"
    and "\<forall>r \<in> set (rows s). generation_date r \<le> today e"
    and "get_current_day e0 niche' s = Inr g" and "today e0 = today e"
    and "g < d"
  shows "sequence_increasing (snd (log_idea e title' niche' d s))"
proof -
  let ?s' = "snd (log_idea e title' niche' d s)"
  let ?n = "new_row e title' niche' d s"
  let ?kept = "filter (\<lambda>r. \<not> same_day (strip niche') (today e) r) (rows s)"
  consider (same) "rows ?s' = rows s" | (new) "rows ?s' = ?kept @ [?n]"
    using log_idea_rows_cases [of e title' niche' d s] by blast
  then show ?thesis
  proof cases
    case same
    with assms(1) show ?thesis by (simp add: sequence_increasing_iff)
  next
    case new
    have prior: "continuation_day r1 < continuation_day ?n"
      if "r1 \<in> set (rows s)" "niche r1 = niche ?n" "generation_date r1 < generation_date ?n"
      for r1
    proof -
      from that have "niche r1 = strip niche'" "generation_date r1 < today e0"
        using assms(4) by (simp_all add: new_row_def)
      with prior_le_current [OF assms(1) assms(3) that(1)] have "continuation_day r1 \<le> g"
        by simp
      with assms(5) show ?thesis by (simp add: new_row_def)
    qed
    have later: False
      if "r2 \<in> set (rows s)" "generation_date ?n < generation_date r2" for r2
    proof -
      from that(1) assms(2) have "generation_date r2 \<le> today e" by blast
      with that(2) show False by (simp add: new_row_def)
    qed
    show ?thesis
      unfolding sequence_increasing_iff
    proof (intro ballI impI)
      fix r2 r1
      assume r2: "r2 \<in> set (rows ?s')" and r1: "r1 \<in> set (rows ?s')"
        and rel: "niche r1 = niche r2 \<and> generation_date r1 < generation_date r2"
      from r1 new have c1: "r1 \<in> set (rows s) \<or> r1 = ?n" by auto
      from r2 new have c2: "r2 \<in> set (rows s) \<or> r2 = ?n" by auto
      show "continuation_day r1 < continuation_day r2"
      proof (cases "r2 = ?n")
        case True
        with rel have "r1 \<noteq> ?n" by auto
        with c1 have "r1 \<in> set (rows s)" by simp
        with prior rel True show ?thesis by simp
      next
        case False
        with c2 have in2: "r2 \<in> set (rows s)" by simp
        show ?thesis
        proof (cases "r1 = ?n")
          case True
          with later in2 rel show ?thesis by blast
        next
          case False
          with c1 have "r1 \<in> set (rows s)" by simp
          with assms(1) in2 rel show ?thesis
            unfolding sequence_increasing_iff by blast
        qed
      qed
    qed
  qed
qed

theorem log_idea_keeps_sequence_witness:
  "sequence_increasing \<lparr>rows = [mmo_mar01, faceless_mar02], last_id = 4\<rparr>
   \<and> generation_date mmo_mar01 \<le> today mar02 \<and> generation_date faceless_mar02 \<le> today mar02
   \<and> get_current_day mar02 ''MMO'' \<lparr>rows = [mmo_mar01, faceless_mar02], last_id = 4\<rparr> = Inr 5
   \<and> (5::int) < 6
   \<and> snd (log_idea mar02 ''T'' ''MMO'' 6 \<lparr>rows = [mmo_mar01, faceless_mar02], last_id = 4\<rparr>)
       = \<lparr>rows = [mmo_mar01, faceless_mar02,
                  \<lparr>idea_id = 5, title = ''T'', niche = ''MMO'', continuation_day = 6,
                   created_at = ''2024-03-02T10:00:00'', generation_date = ''2024-03-02''\<rparr>],
          last_id = 5\<rparr>
   \<and> sequence_increasing
        (snd (log_idea mar02 ''T'' ''MMO'' 6 \<lparr>rows = [mmo_mar01, faceless_mar02], last_id = 4\<rparr>))"
proof -
  let ?s = "\<lparr>rows = [mmo_mar01, faceless_mar02], last_id = 4\<rparr>"
  have inv: "sequence_increasing ?s"
    by (simp add: sequence_increasing_def example_defs)
  have past: "\<forall>r \<in> set (rows ?s). generation_date r \<le> today mar02"
    by (simp add: example_defs)
  have g: "get_current_day mar02 ''MMO'' ?s = Inr 5"
    by (simp add: get_current_day_def eval_defs example_defs)
  have run: "snd (log_idea mar02 ''T'' ''MMO'' 6 ?s)
       = \<lparr>rows = [mmo_mar01, faceless_mar02,
                  \<lparr>idea_id = 5, title = ''T'', niche = ''MMO'', continuation_day = 6,
                   created_at = ''2024-03-02T10:00:00'', generation_date = ''2024-03-02''\<rparr>],
          last_id = 5\<rparr>"
    by (simp add: eval_defs example_defs)
  have "sequence_increasing (snd (log_idea mar02 ''T'' ''MMO'' 6 ?s))"
    by (rule log_idea_keeps_sequence [OF inv past g refl]) simp
  with inv past g run show ?thesis by simp
qed

end
